theory Spec2Isabelle
  imports Complex_Main
begin

section \<open>JavaScript strings\<close>

text \<open>
  A JavaScript string is a sequence of UTF-16 code units. It is modelled by \<^typ>\<open>string\<close>,
  one \<^typ>\<open>char\<close> per code unit, so the model covers the strings whose code units lie in
  the range 0..255. In that range the characters that \<^verbatim>\<open>String.prototype.trim\<close> and
  \<^verbatim>\<open>parseInt\<close> treat as white space (WhiteSpace and LineTerminator of the language
  definition) are TAB, LF, VT, FF, CR, SPACE and NO-BREAK SPACE.
\<close>

definition isWhiteSpace :: "char \<Rightarrow> bool" where
  "isWhiteSpace c \<longleftrightarrow>
     c = CHR 0x09 \<or> c = CHR 0x0A \<or> c = CHR 0x0B \<or> c = CHR 0x0C \<or> c = CHR 0x0D \<or>
     c = CHR 0x20 \<or> c = CHR 0xA0"

definition trimStart :: "string \<Rightarrow> string" where
  "trimStart s = dropWhile isWhiteSpace s"

definition trimEnd :: "string \<Rightarrow> string" where
  "trimEnd s = rev (dropWhile isWhiteSpace (rev s))"

text \<open>\<^verbatim>\<open>s.trim()\<close>\<close>

definition trim :: "string \<Rightarrow> string" where
  "trim s = trimEnd (trimStart s)"

text \<open>\<^verbatim>\<open>arr.join(sep)\<close>\<close>

fun join :: "string list \<Rightarrow> string \<Rightarrow> string" where
  "join [] sep = []"
| "join [x] sep = x"
| "join (x # y # ys) sep = x @ sep @ join (y # ys) sep"

section \<open>lib/validation.ts: sanitizeString\<close>

text \<open>
  \<^verbatim>\<open>s.replace(/[<>]/g, '')\<close>: the global flag makes the replacement scan the whole string,
  every code unit that is in the class \<^verbatim>\<open>[<>]\<close> is replaced by the empty string.
\<close>

fun replace_angle_brackets :: "string \<Rightarrow> string" where
  "replace_angle_brackets [] = []"
| "replace_angle_brackets (c # cs) =
     (if c = CHR ''<'' \<or> c = CHR ''>'' then replace_angle_brackets cs
      else c # replace_angle_brackets cs)"

text \<open>\<^verbatim>\<open>return input.trim().replace(/[<>]/g, '');\<close>\<close>

definition sanitizeString :: "string \<Rightarrow> string" where
  "sanitizeString input = replace_angle_brackets (trim input)"

section \<open>JavaScript numbers and values\<close>

text \<open>
  A JavaScript number is an IEEE double. The model keeps the finite values as exact
  rationals and the three special values apart; rounding and the sign of zero are not
  represented (integers below \<open>2^53\<close> are exact in a double). The arithmetic below follows
  the language definition on the special values.
\<close>

datatype number = Fin rat | NaN | PosInf | NegInf

fun num_sub :: "number \<Rightarrow> number \<Rightarrow> number" where
  "num_sub (Fin a) (Fin b) = Fin (a - b)"
| "num_sub NaN y = NaN"
| "num_sub x NaN = NaN"
| "num_sub (Fin a) PosInf = NegInf"
| "num_sub (Fin a) NegInf = PosInf"
| "num_sub PosInf y = (if y = PosInf then NaN else PosInf)"
| "num_sub NegInf y = (if y = NegInf then NaN else NegInf)"

fun num_mul :: "number \<Rightarrow> number \<Rightarrow> number" where
  "num_mul (Fin a) (Fin b) = Fin (a * b)"
| "num_mul NaN y = NaN"
| "num_mul x NaN = NaN"
| "num_mul (Fin a) y =
     (if a = 0 then NaN else if (0 < a) = (y = PosInf) then PosInf else NegInf)"
| "num_mul x (Fin b) =
     (if b = 0 then NaN else if (0 < b) = (x = PosInf) then PosInf else NegInf)"
| "num_mul x y = (if x = y then PosInf else NegInf)"

fun num_div :: "number \<Rightarrow> number \<Rightarrow> number" where
  "num_div (Fin a) (Fin b) =
     (if b = 0 then (if a = 0 then NaN else if 0 < a then PosInf else NegInf)
      else Fin (a / b))"
| "num_div NaN y = NaN"
| "num_div x NaN = NaN"
| "num_div (Fin a) y = Fin 0"
| "num_div x (Fin b) = (if (0 \<le> b) = (x = PosInf) then PosInf else NegInf)"
| "num_div x y = NaN"

text \<open>\<^verbatim>\<open>Math.ceil(x)\<close>\<close>

fun Math_ceil :: "number \<Rightarrow> number" where
  "Math_ceil (Fin r) = Fin (of_int \<lceil>r\<rceil>)"
| "Math_ceil x = x"

text \<open>
  \<^verbatim>\<open>parseInt(string)\<close> without a radix: leading white space is skipped, a sign is read,
  a prefix \<^verbatim>\<open>0x\<close> or \<^verbatim>\<open>0X\<close> selects radix 16 (radix 10 otherwise), and the longest
  prefix of digits of that radix is the value; with no digit the result is \<^verbatim>\<open>NaN\<close>.
\<close>

definition digitValue :: "char \<Rightarrow> nat option" where
  "digitValue c =
     (let n = (of_char c :: nat) in
      if 48 \<le> n \<and> n \<le> 57 then Some (n - 48)
      else if 97 \<le> n \<and> n \<le> 122 then Some (n - 87)
      else if 65 \<le> n \<and> n \<le> 90 then Some (n - 55)
      else None)"

definition isRadixDigit :: "nat \<Rightarrow> char \<Rightarrow> bool" where
  "isRadixDigit R c = (case digitValue c of Some d \<Rightarrow> d < R | None \<Rightarrow> False)"

fun digitsValue :: "nat \<Rightarrow> string \<Rightarrow> nat \<Rightarrow> nat" where
  "digitsValue R [] acc = acc"
| "digitsValue R (c # cs) acc =
     digitsValue R cs (case digitValue c of Some d \<Rightarrow> acc * R + d | None \<Rightarrow> acc)"

definition parseInt :: "string \<Rightarrow> number" where
  "parseInt string =
     (let S = trimStart string;
          sign = (case S of c # cs \<Rightarrow> if c = CHR ''-'' then - 1 else 1 | [] \<Rightarrow> (1::int));
          S = (case S of c # cs \<Rightarrow> if c = CHR ''+'' \<or> c = CHR ''-'' then cs else S | [] \<Rightarrow> S);
          (R, S) = (case S of
                      a # b # cs \<Rightarrow>
                        if a = CHR ''0'' \<and> (b = CHR ''x'' \<or> b = CHR ''X'') then (16, cs)
                        else (10, S)
                    | _ \<Rightarrow> (10, S));
          Z = takeWhile (isRadixDigit R) S
      in if Z = [] then NaN else Fin (of_int (sign * int (digitsValue R Z 0))))"

text \<open>
  The values the handlers and helpers see: what \<^verbatim>\<open>JSON.parse\<close> produces, \<^verbatim>\<open>undefined\<close>
  (a missing property) and \<^verbatim>\<open>Date\<close> objects (the store's timestamps). An object is the
  list of its own enumerable properties in iteration order (the order of
  \<^verbatim>\<open>Object.entries\<close>).
\<close>

datatype jsval =
    JUndefined
  | JNull
  | JBool bool
  | JNum number
  | JStr string
  | JDate int
  | JArr "jsval list"
  | JObj "(string \<times> jsval) list"

text \<open>\<^verbatim>\<open>ToBoolean\<close>: what \<^verbatim>\<open>!value\<close> negates.\<close>

fun truthy :: "jsval \<Rightarrow> bool" where
  "truthy JUndefined = False"
| "truthy JNull = False"
| "truthy (JBool b) = b"
| "truthy (JNum (Fin r)) = (r \<noteq> 0)"
| "truthy (JNum NaN) = False"
| "truthy (JNum PosInf) = True"
| "truthy (JNum NegInf) = True"
| "truthy (JStr s) = (s \<noteq> [])"
| "truthy (JDate t) = True"
| "truthy (JArr xs) = True"
| "truthy (JObj fs) = True"

text \<open>Property access \<^verbatim>\<open>obj.key\<close> on a value that is neither \<^verbatim>\<open>null\<close> nor \<^verbatim>\<open>undefined\<close>.\<close>

fun getProp :: "jsval \<Rightarrow> string \<Rightarrow> jsval" where
  "getProp (JObj fs) key = (case map_of fs key of Some v \<Rightarrow> v | None \<Rightarrow> JUndefined)"
| "getProp v key = JUndefined"

text \<open>
  A thrown exception: \<^verbatim>\<open>new Error(message)\<close> has no \<^verbatim>\<open>code\<close> property, the errors of the
  persistence client may carry one.
\<close>

datatype js_error = JsError (err_message: string) (err_code: "string option")

section \<open>lib/validation.ts: validateRequired\<close>

text \<open>
  The loop over \<^verbatim>\<open>Object.entries(fields)\<close>, with \<^verbatim>\<open>missing\<close> as accumulator:
  \<^verbatim>\<open>if (!value || (typeof value === 'string' && value.trim() === '')) missing.push(key);\<close>
\<close>

fun validateRequired_loop :: "(string \<times> jsval) list \<Rightarrow> string list \<Rightarrow> string list" where
  "validateRequired_loop [] missing = missing"
| "validateRequired_loop ((key, value) # entries) missing =
     (if \<not> truthy value \<or> (case value of JStr s \<Rightarrow> trim s = [] | _ \<Rightarrow> False)
      then validateRequired_loop entries (missing @ [key])
      else validateRequired_loop entries missing)"

definition validateRequired :: "(string \<times> jsval) list \<Rightarrow> js_error + unit" where
  "validateRequired fields =
     (let missing = validateRequired_loop fields [] in
      if length missing > 0
      then Inl (JsError (''Missing required fields: '' @ join missing '', '') None)
      else Inr ())"

section \<open>Responses: lib/api-utils.ts\<close>

text \<open>
  A response is its HTTP status and the value handed to \<^verbatim>\<open>NextResponse.json\<close> as body
  (the framework serializes it with \<^verbatim>\<open>JSON.stringify\<close>, which writes a non-finite number
  as \<^verbatim>\<open>null\<close> and a date as its ISO string). The second argument is the status of the
  \<^verbatim>\<open>init\<close> object, \<open>None\<close> when the call gives no \<^verbatim>\<open>init\<close>: the status is then 200.
\<close>

record response =
  status :: nat
  body :: jsval

definition NextResponse_json :: "jsval \<Rightarrow> nat option \<Rightarrow> response" where
  "NextResponse_json b init =
     \<lparr>status = (case init of None \<Rightarrow> 200 | Some st \<Rightarrow> st), body = b\<rparr>"

text \<open>
  The helpers have default parameters (\<^verbatim>\<open>status = 200\<close>, \<^verbatim>\<open>status = 400\<close>,
  \<^verbatim>\<open>message = 'Forbidden'\<close>, ...): an argument the caller leaves out is \<open>None\<close>.
\<close>

definition successResponse :: "jsval \<Rightarrow> nat option \<Rightarrow> response" where
  "successResponse data status_arg =
     (let status = (case status_arg of None \<Rightarrow> 200 | Some st \<Rightarrow> st) in
      NextResponse_json (JObj [(''success'', JBool True), (''data'', data)]) (Some status))"

definition errorResponse :: "string \<Rightarrow> nat option \<Rightarrow> response" where
  "errorResponse message status_arg =
     (let status = (case status_arg of None \<Rightarrow> 400 | Some st \<Rightarrow> st) in
      NextResponse_json (JObj [(''success'', JBool False), (''error'', JStr message)]) (Some status))"

definition unauthorizedResponse :: response where
  "unauthorizedResponse =
     NextResponse_json
       (JObj [(''success'', JBool False), (''error'', JStr ''Unauthorized - Please sign in'')])
       (Some 401)"

definition forbiddenResponse :: "string option \<Rightarrow> response" where
  "forbiddenResponse message_arg =
     (let message = (case message_arg of None \<Rightarrow> ''Forbidden'' | Some m \<Rightarrow> m) in
      NextResponse_json (JObj [(''success'', JBool False), (''error'', JStr message)]) (Some 403))"

definition notFoundResponse :: "string option \<Rightarrow> response" where
  "notFoundResponse resource_arg =
     (let resource = (case resource_arg of None \<Rightarrow> ''Resource'' | Some r \<Rightarrow> r) in
      NextResponse_json
        (JObj [(''success'', JBool False), (''error'', JStr (resource @ '' not found''))])
        (Some 404))"

definition serverErrorResponse :: "string option \<Rightarrow> response" where
  "serverErrorResponse message_arg =
     (let message = (case message_arg of None \<Rightarrow> ''Internal server error'' | Some m \<Rightarrow> m) in
      NextResponse_json (JObj [(''success'', JBool False), (''error'', JStr message)]) (Some 500))"

section \<open>Sessions\<close>

text \<open>
  \<^verbatim>\<open>getServerSession(authOptions)\<close> belongs to the authentication library; its result is
  an argument of every handler: \<open>None\<close> for \<^verbatim>\<open>null\<close> (no session), otherwise the session
  with its \<^verbatim>\<open>user\<close> object \<^verbatim>\<open>{ id, email, name, role }\<close>.
\<close>

record session_user =
  su_id :: string
  su_email :: string
  su_name :: string
  su_role :: string

record session =
  user :: session_user


section \<open>app/api/protected/route.ts and app/api/hello/route.ts\<close>




section \<open>The persistence store\<close>

text \<open>
  Modelled from the spec: the persistence store (the ORM client \<^verbatim>\<open>prisma\<close> and its schema
  are not under src/). The spec gives a user an identifier, a display name, an email, a
  password credential, a role, a creation and a last-update timestamp, and associated
  sessions; the store offers record-level find, update and delete plus a count with a
  filter. A listing is the filtered set, ordered by creation timestamp descending, sliced
  \<open>[skip, skip + take)\<close>. An update or delete of a record that does not exist raises the
  store's "record not found" signal, the error whose \<^verbatim>\<open>code\<close> is \<^verbatim>\<open>P2025\<close>. Any operation
  can fail for reasons of the store's own (\<open>fault\<close>: the error every operation raises
  while the store is in that condition). The spec is silent on arguments outside these
  words; there the model follows the client's documentation: arguments that are no
  integers, an identifier or role that is no string, and a negative \<open>skip\<close> are rejected
  with a validation error that carries no code, and a negative \<open>take\<close> reads from the end
  of the ordering. No property below depends on these cases.
\<close>

record user_record =
  u_id :: string
  u_name :: string
  u_email :: string
  u_password :: string
  u_role :: string
  u_createdAt :: int
  u_updatedAt :: int
  u_sessions :: "string list"

record db =
  users :: "user_record list"
  fault :: "js_error option"
  clock :: int

datatype string_filter = Contains_insensitive string

datatype where_clause = Where_all | Where_OR "(string \<times> string_filter) list"

datatype select_item = Scalar string | Count "string list"

definition PrismaClientValidationError :: js_error where
  "PrismaClientValidationError = JsError ''Invalid invocation: argument validation failed'' None"

definition RecordNotFound :: js_error where
  "RecordNotFound =
     JsError ''An operation failed because it depends on one or more records that were required but not found.''
       (Some ''P2025'')"

definition toLowerChar :: "char \<Rightarrow> char" where
  "toLowerChar c =
     (let n = (of_char c :: nat) in if 65 \<le> n \<and> n \<le> 90 then char_of (n + 32) else c)"

fun startsWith :: "string \<Rightarrow> string \<Rightarrow> bool" where
  "startsWith s [] = True"
| "startsWith [] (p # ps) = False"
| "startsWith (c # cs) (p # ps) = (c = p \<and> startsWith cs ps)"

fun includes_substring :: "string \<Rightarrow> string \<Rightarrow> bool" where
  "includes_substring [] needle = (needle = [])"
| "includes_substring (c # cs) needle =
     (startsWith (c # cs) needle \<or> includes_substring cs needle)"

definition string_field :: "string \<Rightarrow> user_record \<Rightarrow> string option" where
  "string_field f u =
     (if f = ''id'' then Some (u_id u)
      else if f = ''name'' then Some (u_name u)
      else if f = ''email'' then Some (u_email u)
      else if f = ''password'' then Some (u_password u)
      else if f = ''role'' then Some (u_role u)
      else None)"

fun filter_matches :: "string \<times> string_filter \<Rightarrow> user_record \<Rightarrow> bool" where
  "filter_matches (f, Contains_insensitive needle) u =
     (case string_field f u of
        Some v \<Rightarrow> includes_substring (map toLowerChar v) (map toLowerChar needle)
      | None \<Rightarrow> False)"

fun where_matches :: "where_clause \<Rightarrow> user_record \<Rightarrow> bool" where
  "where_matches Where_all u = True"
| "where_matches (Where_OR fs) u = list_ex (\<lambda>f. filter_matches f u) fs"

definition scalar_field :: "string \<Rightarrow> user_record \<Rightarrow> jsval option" where
  "scalar_field f u =
     (if f = ''createdAt'' then Some (JDate (u_createdAt u))
      else if f = ''updatedAt'' then Some (JDate (u_updatedAt u))
      else map_option JStr (string_field f u))"

fun select_item_val :: "select_item \<Rightarrow> user_record \<Rightarrow> (string \<times> jsval) list" where
  "select_item_val (Scalar f) u = (case scalar_field f u of Some v \<Rightarrow> [(f, v)] | None \<Rightarrow> [])"
| "select_item_val (Count rels) u =
     [(''_count'',
       JObj (map (\<lambda>r. (r, JNum (Fin (of_nat (length (u_sessions u))))))
              (filter (\<lambda>r. r = ''sessions'') rels)))]"

text \<open>
  Modelled from the spec: the object the store returns for a record under a \<^verbatim>\<open>select\<close>,
  holding the selected fields and no other.
\<close>

definition project :: "select_item list \<Rightarrow> user_record \<Rightarrow> jsval" where
  "project sel u = JObj (concat (map (\<lambda>i. select_item_val i u) sel))"

definition int_arg :: "number \<Rightarrow> int option" where
  "int_arg n = (case n of Fin r \<Rightarrow> if of_int \<lfloor>r\<rfloor> = r then Some \<lfloor>r\<rfloor> else None | _ \<Rightarrow> None)"

text \<open>
  Modelled from the spec:
  \<^verbatim>\<open>prisma.user.findMany({ where, skip, take, select, orderBy: { createdAt: 'desc' } })\<close>,
  the filtered set ordered by creation timestamp descending and sliced \<open>[skip, skip + take)\<close>.
\<close>

definition prisma_user_findMany ::
  "db \<Rightarrow> where_clause \<Rightarrow> number \<Rightarrow> number \<Rightarrow> select_item list \<Rightarrow> js_error + jsval list" where
  "prisma_user_findMany d wh skip tk sel =
     (case fault d of
        Some e \<Rightarrow> Inl e
      | None \<Rightarrow>
          (case (int_arg skip, int_arg tk) of
             (Some s, Some t) \<Rightarrow>
               if s < 0 then Inl PrismaClientValidationError
               else
                 (let rows = sort_key (\<lambda>u. - u_createdAt u) (filter (where_matches wh) (users d));
                      slice = (if 0 \<le> t then take (nat t) (drop (nat s) rows)
                               else rev (take (nat (- t)) (drop (nat s) (rev rows))))
                  in Inr (map (project sel) slice))
           | _ \<Rightarrow> Inl PrismaClientValidationError))"

text \<open>
  Modelled from the spec: \<^verbatim>\<open>prisma.user.count({ where })\<close>, the count of the full filtered
  set.
\<close>

definition prisma_user_count :: "db \<Rightarrow> where_clause \<Rightarrow> js_error + nat" where
  "prisma_user_count d wh =
     (case fault d of
        Some e \<Rightarrow> Inl e
      | None \<Rightarrow> Inr (length (filter (where_matches wh) (users d))))"

text \<open>
  Modelled from the spec: \<^verbatim>\<open>prisma.user.update({ where: { id }, data: { role }, select })\<close>;
  a record that does not exist raises the "record not found" signal.
\<close>

definition prisma_user_update ::
  "db \<Rightarrow> jsval \<Rightarrow> jsval \<Rightarrow> select_item list \<Rightarrow> js_error + jsval \<times> db" where
  "prisma_user_update d ident role sel =
     (case fault d of
        Some e \<Rightarrow> Inl e
      | None \<Rightarrow>
          (case (ident, role) of
             (JStr uid, JStr r) \<Rightarrow>
               (case find (\<lambda>u. u_id u = uid) (users d) of
                  None \<Rightarrow> Inl RecordNotFound
                | Some u \<Rightarrow>
                    (let u' = u\<lparr>u_role := r, u_updatedAt := clock d\<rparr> in
                     Inr (project sel u',
                          d\<lparr>users := map (\<lambda>x. if u_id x = uid then u' else x) (users d)\<rparr>)))
           | _ \<Rightarrow> Inl PrismaClientValidationError))"

text \<open>
  Modelled from the spec: \<^verbatim>\<open>prisma.user.delete({ where: { id } })\<close>; a record that does not
  exist raises the "record not found" signal.
\<close>

definition prisma_user_delete :: "db \<Rightarrow> jsval \<Rightarrow> js_error + db" where
  "prisma_user_delete d ident =
     (case fault d of
        Some e \<Rightarrow> Inl e
      | None \<Rightarrow>
          (case ident of
             JStr uid \<Rightarrow>
               (case find (\<lambda>u. u_id u = uid) (users d) of
                  None \<Rightarrow> Inl RecordNotFound
                | Some u \<Rightarrow> Inr (d\<lparr>users := filter (\<lambda>x. u_id x \<noteq> uid) (users d)\<rparr>))
           | _ \<Rightarrow> Inl PrismaClientValidationError))"

section \<open>app/api/admin/users/route.ts\<close>

text \<open>
  \<^verbatim>\<open>searchParams.get(name)\<close> is the first value given for the name, \<^verbatim>\<open>null\<close> when there is
  none; \<^verbatim>\<open>x || d\<close> on a string or \<^verbatim>\<open>null\<close> is \<open>d\<close> when \<open>x\<close> is \<^verbatim>\<open>null\<close> or empty.
\<close>

definition searchParams_get :: "(string \<times> string) list \<Rightarrow> string \<Rightarrow> string option" where
  "searchParams_get searchParams name = map_of searchParams name"

definition or_else :: "string option \<Rightarrow> string \<Rightarrow> string" where
  "or_else x d = (case x of None \<Rightarrow> d | Some s \<Rightarrow> if s = [] then d else s)"

text \<open>Lines 30 to 34 of the handler: the query parameters and the offset.\<close>

definition query_page :: "(string \<times> string) list \<Rightarrow> number" where
  "query_page searchParams = parseInt (or_else (searchParams_get searchParams ''page'') ''1'')"

definition query_limit :: "(string \<times> string) list \<Rightarrow> number" where
  "query_limit searchParams = parseInt (or_else (searchParams_get searchParams ''limit'') ''10'')"

definition query_search :: "(string \<times> string) list \<Rightarrow> string" where
  "query_search searchParams = or_else (searchParams_get searchParams ''search'') []"

definition query_skip :: "(string \<times> string) list \<Rightarrow> number" where
  "query_skip searchParams =
     num_mul (num_sub (query_page searchParams) (Fin 1)) (query_limit searchParams)"

text \<open>Lines 36 to 43: the filter, empty when \<^verbatim>\<open>search\<close> is the empty string.\<close>

definition GET_where :: "string \<Rightarrow> where_clause" where
  "GET_where search =
     (if search \<noteq> []
      then Where_OR [(''name'', Contains_insensitive search),
                     (''email'', Contains_insensitive search)]
      else Where_all)"

definition GET_select :: "select_item list" where
  "GET_select =
     [Scalar ''id'', Scalar ''name'', Scalar ''email'', Scalar ''role'', Scalar ''createdAt'',
      Scalar ''updatedAt'', Count [''sessions'']]"

text \<open>
  GET /api/admin/users. The handler reads the store and does not change it. A rejection of
  either promise of \<^verbatim>\<open>Promise.all\<close> is caught by the \<^verbatim>\<open>catch\<close> block.
\<close>

definition GET :: "session option \<Rightarrow> (string \<times> string) list \<Rightarrow> db \<Rightarrow> response" where
  "GET session searchParams d =
     (case session of
        None \<Rightarrow> unauthorizedResponse
      | Some s \<Rightarrow>
          if su_role (user s) \<noteq> ''admin'' then forbiddenResponse (Some ''Admin access required'')
          else
            (let page = query_page searchParams;
                 limit = query_limit searchParams;
                 search = query_search searchParams;
                 skip = query_skip searchParams;
                 wh = GET_where search
             in case prisma_user_findMany d wh skip limit GET_select of
                  Inl error \<Rightarrow> errorResponse ''Failed to fetch users'' (Some 500)
                | Inr found \<Rightarrow>
                    (case prisma_user_count d wh of
                       Inl error \<Rightarrow> errorResponse ''Failed to fetch users'' (Some 500)
                     | Inr total' \<Rightarrow>
                         successResponse
                           (JObj [(''users'', JArr found),
                                  (''pagination'',
                                   JObj [(''page'', JNum page),
                                         (''limit'', JNum limit),
                                         (''total'', JNum (Fin (of_nat total'))),
                                         (''totalPages'',
                                          JNum (Math_ceil (num_div (Fin (of_nat total')) limit)))])])
                           None)))"

text \<open>
  PATCH /api/admin/users. \<open>PATCH_try\<close> is the \<^verbatim>\<open>try\<close> block: \<open>Inl\<close> is the exception it
  throws, \<open>Inr\<close> the response it returns and the store after it. \<^verbatim>\<open>request.json()\<close> rejects
  when the request holds no valid JSON (\<open>None\<close>), and destructuring \<^verbatim>\<open>null\<close> throws a
  \<^verbatim>\<open>TypeError\<close>. \<^verbatim>\<open>['user', 'admin'].includes(role)\<close> compares with the two strings.
\<close>

definition invalid_role_message :: string where
  \<open>invalid_role_message = ''Invalid role. Must be "user" or "admin"''\<close>

definition PATCH_try :: "jsval option \<Rightarrow> db \<Rightarrow> js_error + response \<times> db" where
  "PATCH_try request_json d =
     (case request_json of
        None \<Rightarrow> Inl (JsError ''Unexpected end of JSON input'' None)
      | Some b \<Rightarrow>
          if b = JNull \<or> b = JUndefined
          then Inl (JsError ''Cannot destructure property of the request body'' None)
          else
            (let userId = getProp b ''userId'';
                 role = getProp b ''role''
             in case validateRequired [(''userId'', userId), (''role'', role)] of
                  Inl e \<Rightarrow> Inl e
                | Inr u \<Rightarrow>
                    if role \<notin> set [JStr ''user'', JStr ''admin'']
                    then Inr (errorResponse invalid_role_message (Some 400), d)
                    else
                      (case prisma_user_update d userId role
                              [Scalar ''id'', Scalar ''name'', Scalar ''email'', Scalar ''role''] of
                         Inl e \<Rightarrow> Inl e
                       | Inr (updated, d') \<Rightarrow>
                           Inr (successResponse
                                  (JObj [(''message'', JStr ''User role updated successfully''),
                                         (''user'', updated)])
                                  None,
                                d'))))"

definition PATCH :: "session option \<Rightarrow> jsval option \<Rightarrow> db \<Rightarrow> response \<times> db" where
  "PATCH session request_json d =
     (case session of
        None \<Rightarrow> (unauthorizedResponse, d)
      | Some s \<Rightarrow>
          if su_role (user s) \<noteq> ''admin''
          then (forbiddenResponse (Some ''Admin access required''), d)
          else
            (case PATCH_try request_json d of
               Inr result \<Rightarrow> result
             | Inl error \<Rightarrow>
                 if err_code error = Some ''P2025''
                 then (errorResponse ''User not found'' (Some 404), d)
                 else (errorResponse ''Failed to update user'' (Some 500), d)))"

text \<open>DELETE /api/admin/users, with \<open>DELETE_try\<close> its \<^verbatim>\<open>try\<close> block.\<close>

definition DELETE_try :: "session \<Rightarrow> (string \<times> string) list \<Rightarrow> db \<Rightarrow> js_error + response \<times> db" where
  "DELETE_try s searchParams d =
     (case searchParams_get searchParams ''id'' of
        None \<Rightarrow> Inr (errorResponse ''User ID is required'' (Some 400), d)
      | Some userId \<Rightarrow>
          if userId = [] then Inr (errorResponse ''User ID is required'' (Some 400), d)
          else if userId = su_id (user s)
          then Inr (errorResponse ''Cannot delete your own account'' (Some 400), d)
          else
            (case prisma_user_delete d (JStr userId) of
               Inl e \<Rightarrow> Inl e
             | Inr d' \<Rightarrow>
                 Inr (successResponse (JObj [(''message'', JStr ''User deleted successfully'')]) None,
                      d')))"

definition DELETE :: "session option \<Rightarrow> (string \<times> string) list \<Rightarrow> db \<Rightarrow> response \<times> db" where
  "DELETE session searchParams d =
     (case session of
        None \<Rightarrow> (unauthorizedResponse, d)
      | Some s \<Rightarrow>
          if su_role (user s) \<noteq> ''admin''
          then (forbiddenResponse (Some ''Admin access required''), d)
          else
            (case DELETE_try s searchParams d of
               Inr result \<Rightarrow> result
             | Inl error \<Rightarrow>
                 if err_code error = Some ''P2025''
                 then (errorResponse ''User not found'' (Some 404), d)
                 else (errorResponse ''Failed to delete user'' (Some 500), d)))"

section \<open>Reading a response\<close>



definition response_users :: "response \<Rightarrow> jsval list" where
  "response_users r =
     (case getProp (getProp (body r) ''data'') ''users'' of JArr xs \<Rightarrow> xs | _ \<Rightarrow> [])"

definition response_pagination :: "response \<Rightarrow> string \<Rightarrow> jsval" where
  "response_pagination r key = getProp (getProp (getProp (body r) ''data'') ''pagination'') key"


text \<open>
  The number of records that match a search string (the count of the full filtered set),
  and the ceiling of a quotient of two counts.
\<close>

definition matching_count :: "db \<Rightarrow> string \<Rightarrow> nat" where
  "matching_count d srch = length (filter (where_matches (GET_where srch)) (users d))"

definition ceil_div :: "nat \<Rightarrow> nat \<Rightarrow> int" where
  "ceil_div t l = \<lceil>(of_nat t :: rat) / of_nat l\<rceil>"

section \<open>Example data\<close>

definition example_admin :: session where
  "example_admin =
     \<lparr>user = \<lparr>su_id = ''a1'', su_email = ''ann@x.com'', su_name = ''Ann'', su_role = ''admin''\<rparr>\<rparr>"

definition example_member :: session where
  "example_member =
     \<lparr>user = \<lparr>su_id = ''u1'', su_email = ''bob@x.com'', su_name = ''Bob'', su_role = ''user''\<rparr>\<rparr>"

definition example_db :: db where
  "example_db =
     \<lparr>users =
        [\<lparr>u_id = ''u1'', u_name = ''Bob'', u_email = ''bob@x.com'', u_password = ''hash1'',
          u_role = ''user'', u_createdAt = 10, u_updatedAt = 10, u_sessions = []\<rparr>,
         \<lparr>u_id = ''a1'', u_name = ''Ann'', u_email = ''ann@x.com'', u_password = ''hash2'',
          u_role = ''admin'', u_createdAt = 20, u_updatedAt = 20, u_sessions = [''s1'']\<rparr>,
         \<lparr>u_id = ''u2'', u_name = ''Cy'', u_email = ''cy@x.com'', u_password = ''hash3'',
          u_role = ''user'', u_createdAt = 30, u_updatedAt = 30, u_sessions = []\<rparr>],
      fault = None, clock = 100\<rparr>"

definition example_faulty_db :: db where
  "example_faulty_db = example_db\<lparr>fault := Some (JsError ''Can not reach database server'' (Some ''P1001''))\<rparr>"

definition example_pages :: "nat \<Rightarrow> (string \<times> string) list" where
  "example_pages p = [(''page'', if p = 1 then ''1'' else ''2''), (''limit'', ''2'')]"

section \<open>Properties of the string helpers\<close>

lemma replace_angle_brackets_filter:
  "replace_angle_brackets s = filter (\<lambda>c. c \<noteq> CHR ''<'' \<and> c \<noteq> CHR ''>'') s"
  by (induction s) auto

lemma trimStart_decomp:
  "s = takeWhile isWhiteSpace s @ trimStart s"
  by (simp add: trimStart_def)

lemma trimEnd_decomp:
  "s = trimEnd s @ rev (takeWhile isWhiteSpace (rev s))"
proof -
  have "rev (dropWhile isWhiteSpace (rev s)) @ rev (takeWhile isWhiteSpace (rev s))
          = rev (takeWhile isWhiteSpace (rev s) @ dropWhile isWhiteSpace (rev s))"
    by (simp only: rev_append)
  also have "\<dots> = s"
    by simp
  finally show ?thesis
    by (simp add: trimEnd_def)
qed

lemma trim_decomp:
  "s = takeWhile isWhiteSpace s @ trim s
         @ rev (takeWhile isWhiteSpace (rev (trimStart s)))"
proof -
  have "trimStart s = trim s @ rev (takeWhile isWhiteSpace (rev (trimStart s)))"
    unfolding trim_def by (rule trimEnd_decomp)
  with trimStart_decomp [of s] show ?thesis
    by simp
qed

lemma trimEnd_last:
  assumes "trimEnd s \<noteq> []"
  shows "\<not> isWhiteSpace (last (trimEnd s))"
proof -
  let ?d = "dropWhile isWhiteSpace (rev s)"
  from assms have ne: "?d \<noteq> []"
    by (simp add: trimEnd_def)
  then have "\<not> isWhiteSpace (hd ?d)"
    by (rule hd_dropWhile)
  moreover from ne have "last (rev ?d) = hd ?d"
    by (simp add: last_rev)
  ultimately show ?thesis
    by (simp add: trimEnd_def)
qed

lemma trimEnd_hd:
  assumes "trimEnd s \<noteq> []" and "s \<noteq> []" and "\<not> isWhiteSpace (hd s)"
  shows "hd (trimEnd s) = hd s"
proof -
  from trimEnd_decomp [of s] have "hd s = hd (trimEnd s @ rev (takeWhile isWhiteSpace (rev s)))"
    by simp
  with assms(1) show ?thesis
    by simp
qed

lemma trim_hd_last:
  assumes "trim s \<noteq> []"
  shows "\<not> isWhiteSpace (hd (trim s)) \<and> \<not> isWhiteSpace (last (trim s))"
proof -
  from assms have ne: "trimStart s \<noteq> []"
    by (auto simp: trim_def trimEnd_def)
  then have h: "\<not> isWhiteSpace (hd (trimStart s))"
    unfolding trimStart_def by (rule hd_dropWhile)
  from assms have "hd (trim s) = hd (trimStart s)"
    unfolding trim_def using ne h by (intro trimEnd_hd)
  moreover from assms have "\<not> isWhiteSpace (last (trim s))"
    unfolding trim_def by (rule trimEnd_last)
  ultimately show ?thesis
    using h by simp
qed

text \<open>
  Claim C10. For every input string, \<open>sanitizeString\<close> returns the input trimmed of leading
  and trailing white space with every \<open><\<close> and \<open>>\<close> removed: the input is
  \<open>l @ trim s @ r\<close> with \<open>l\<close> and \<open>r\<close> white space only and \<open>trim s\<close> neither starting
  nor ending with white space, and the result is \<open>trim s\<close> without its angle brackets, so
  the result holds no angle bracket. Brackets are removed after trimming, so white space
  next to a removed bracket stays, and the function is not idempotent: on \<open>< a\<close> it gives
  \<open> a\<close>, and on that it gives \<open>a\<close>.
\<close>

theorem sanitizeString_trims_and_strips:
  "sanitizeString s = filter (\<lambda>c. c \<noteq> CHR ''<'' \<and> c \<noteq> CHR ''>'') (trim s)
   \<and> CHR ''<'' \<notin> set (sanitizeString s) \<and> CHR ''>'' \<notin> set (sanitizeString s)
   \<and> (\<exists>l r. s = l @ trim s @ r \<and> list_all isWhiteSpace l \<and> list_all isWhiteSpace r)
   \<and> (trim s = [] \<or> (\<not> isWhiteSpace (hd (trim s)) \<and> \<not> isWhiteSpace (last (trim s))))
   \<and> sanitizeString ''< a'' = '' a''
   \<and> sanitizeString (sanitizeString ''< a'') = ''a''"
proof -
  have 1: "sanitizeString s = filter (\<lambda>c. c \<noteq> CHR ''<'' \<and> c \<noteq> CHR ''>'') (trim s)"
    by (simp add: sanitizeString_def replace_angle_brackets_filter)
  have 2: "CHR ''<'' \<notin> set (sanitizeString s) \<and> CHR ''>'' \<notin> set (sanitizeString s)"
    by (simp add: 1)
  have "list_all isWhiteSpace (takeWhile isWhiteSpace s)"
    and "list_all isWhiteSpace (rev (takeWhile isWhiteSpace (rev (trimStart s))))"
    by (auto simp: list_all_iff dest: set_takeWhileD)
  with trim_decomp [of s]
  have 3: "\<exists>l r. s = l @ trim s @ r \<and> list_all isWhiteSpace l \<and> list_all isWhiteSpace r"
    by blast
  have 4: "trim s = [] \<or> (\<not> isWhiteSpace (hd (trim s)) \<and> \<not> isWhiteSpace (last (trim s)))"
    using trim_hd_last by blast
  have 5: "sanitizeString ''< a'' = '' a''"
    by (simp add: sanitizeString_def trim_def trimStart_def trimEnd_def isWhiteSpace_def)
  have 6: "sanitizeString (sanitizeString ''< a'') = ''a''"
    unfolding 5 by (simp add: sanitizeString_def trim_def trimStart_def trimEnd_def isWhiteSpace_def)
  from 1 2 3 4 5 6 show ?thesis
    by blast
qed

theorem sanitizeString_trims_and_strips_witness:
  "sanitizeString ''  <b>hi</b> '' = ''bhi/b''
   \<and> CHR ''<'' \<notin> set (sanitizeString ''  <b>hi</b> '')
   \<and> trim ''  <b>hi</b> '' = ''<b>hi</b>''"
  using sanitizeString_trims_and_strips [of "''  <b>hi</b> ''"]
  by (simp add: sanitizeString_def trim_def trimStart_def trimEnd_def isWhiteSpace_def)

section \<open>Properties of validateRequired\<close>

lemma validateRequired_loop_filter:
  "validateRequired_loop entries acc =
     acc @ map fst (filter (\<lambda>(k, v). \<not> truthy v \<or> (\<exists>s. v = JStr s \<and> trim s = [])) entries)"
proof (induction entries arbitrary: acc)
  case Nil
  show ?case by simp
next
  case (Cons kv rest)
  obtain k v where kv: "kv = (k, v)"
    by (cases kv)
  show ?case
    unfolding kv by (cases v) (simp_all add: Cons.IH)
qed

lemma not_truthy_iff:
  "\<not> truthy v \<longleftrightarrow>
     v = JUndefined \<or> v = JNull \<or> v = JBool False \<or> v = JNum (Fin 0) \<or> v = JNum NaN
     \<or> v = JStr []"
proof (cases v)
  case (JNum n)
  then show ?thesis by (cases n) auto
qed auto

text \<open>
  Claim C6 fails as stated: a field whose value is the number 0 is neither missing, nor
  null, nor a string, and \<open>validateRequired\<close> fails on it.
\<close>

theorem validateRequired_zero_counterexample:
  "validateRequired [(''count'', JNum (Fin 0))]
     = Inl (JsError ''Missing required fields: count'' None)"
  by (simp add: validateRequired_def)

text \<open>
  Claim C6, amended. \<open>validateRequired\<close> fails exactly when some field's value is falsy
  (\<open>undefined\<close>, \<open>null\<close>, \<open>false\<close>, \<open>0\<close>, \<open>NaN\<close> or the empty string) or a string that is
  empty after trimming; the message then lists precisely the names of those fields,
  joined by \<open>, \<close> in the iteration order of the mapping, and otherwise the call does not
  fail.
\<close>

theorem validateRequired_lists_missing:
  "validateRequired entries =
     (let missing = map fst (filter (\<lambda>(k, v).
          v = JUndefined \<or> v = JNull \<or> v = JBool False \<or> v = JNum (Fin 0) \<or> v = JNum NaN
          \<or> (\<exists>s. v = JStr s \<and> trim s = [])) entries)
      in if missing = [] then Inr ()
         else Inl (JsError (''Missing required fields: '' @ join missing '', '') None))"
proof -
  have "(\<lambda>(k::string, v). \<not> truthy v \<or> (\<exists>s. v = JStr s \<and> trim s = []))
      = (\<lambda>(k, v). v = JUndefined \<or> v = JNull \<or> v = JBool False \<or> v = JNum (Fin 0)
            \<or> v = JNum NaN \<or> (\<exists>s. v = JStr s \<and> trim s = []))"
    by (auto simp: not_truthy_iff fun_eq_iff trim_def trimStart_def trimEnd_def)
  then show ?thesis
    by (simp add: validateRequired_def validateRequired_loop_filter Let_def)
qed

theorem validateRequired_lists_missing_witness:
  "validateRequired [(''a'', JStr []), (''b'', JStr '' ''), (''c'', JStr ''ok'')]
     = Inl (JsError ''Missing required fields: a, b'' None)
   \<and> validateRequired [(''a'', JStr ''x''), (''c'', JStr ''ok'')] = Inr ()"
  using validateRequired_lists_missing [of "[(''a'', JStr []), (''b'', JStr '' ''), (''c'', JStr ''ok'')]"]
    validateRequired_lists_missing [of "[(''a'', JStr ''x''), (''c'', JStr ''ok'')]"]
  by (simp add: trim_def trimStart_def trimEnd_def isWhiteSpace_def)

section \<open>Authentication before authorization\<close>

lemmas response_defs =
  NextResponse_json_def successResponse_def errorResponse_def unauthorizedResponse_def
  forbiddenResponse_def

lemmas parse_defs = parseInt_def trimStart_def isWhiteSpace_def isRadixDigit_def digitValue_def

text \<open>
  Claim C1. Each of the three handlers of /api/admin/users answers 401 when there is no
  session, whatever the request and the store, and 403 when there is a session whose role
  is not \<open>admin\<close>. The presence of the session is tested first, so a caller without a
  session gets 401 and never 403.
\<close>

theorem admin_handlers_auth_order:
  "status (GET None q d) = 401
   \<and> status (fst (PATCH None b d)) = 401
   \<and> status (fst (DELETE None q d)) = 401
   \<and> (su_role (user s) \<noteq> ''admin'' \<longrightarrow>
        status (GET (Some s) q d) = 403
        \<and> status (fst (PATCH (Some s) b d)) = 403
        \<and> status (fst (DELETE (Some s) q d)) = 403)"
  by (simp add: GET_def PATCH_def DELETE_def response_defs)

theorem admin_handlers_auth_order_witness:
  "su_role (user example_member) \<noteq> ''admin''
   \<and> status (GET (Some example_member) [] example_db) = 403
   \<and> status (fst (PATCH (Some example_member) None example_db)) = 403
   \<and> status (fst (DELETE (Some example_member) [(''id'', ''u2'')] example_db)) = 403
   \<and> status (GET None [] example_db) = 401"
  using admin_handlers_auth_order [where q = "[]" and d = example_db and b = None and s = example_member]
    admin_handlers_auth_order [where q = "[(''id'', ''u2'')]" and d = example_db and b = None and s = example_member]
  by (simp add: example_member_def)

section \<open>The page parameter\<close>





section \<open>The response envelopes\<close>












section \<open>Role validation in PATCH\<close>

lemma trim_user: "trim ''user'' = ''user''" "trim ''admin'' = ''admin''"
  by (simp_all add: trim_def trimStart_def trimEnd_def isWhiteSpace_def)

lemma PATCH_try_invalid_role:
  assumes "getProp b ''role'' \<noteq> JStr ''user''" and "getProp b ''role'' \<noteq> JStr ''admin''"
  shows "PATCH_try (Some b) d = Inr (r, d') \<Longrightarrow> d' = d \<and> r = errorResponse invalid_role_message (Some 400)"
  using assms by (auto simp: PATCH_try_def Let_def split: if_splits sum.splits)

lemma PATCH_invalid_role_store:
  assumes "getProp b ''role'' \<noteq> JStr ''user''" and "getProp b ''role'' \<noteq> JStr ''admin''"
  shows "snd (PATCH session (Some b) d) = d \<and> status (fst (PATCH session (Some b) d)) \<noteq> 200"
proof (cases session)
  case None
  then show ?thesis by (simp add: PATCH_def response_defs)
next
  case (Some s)
  show ?thesis
  proof (cases "PATCH_try (Some b) d")
    case (Inl e)
    with Some show ?thesis by (simp add: PATCH_def response_defs)
  next
    case (Inr res)
    obtain r d' where res: "res = (r, d')" by (cases res)
    from Inr res PATCH_try_invalid_role [OF assms, of d r d']
    have "d' = d" and "r = errorResponse invalid_role_message (Some 400)" by simp_all
    with Some Inr res show ?thesis
      by (simp add: PATCH_def response_defs)
  qed
qed

text \<open>
  Claim C4 does not hold on the code. The claim is that every role other than \<open>user\<close> and
  \<open>admin\<close> is answered with 400 and no update. No update is made
  (\<open>PATCH_invalid_role_store\<close>), and a role such as \<open>owner\<close> gets the 400. A role that is
  the empty string, or that is missing from the body, makes \<open>validateRequired\<close> throw; the
  \<^verbatim>\<open>catch\<close> block then answers 500 with \<open>Failed to update user\<close>.
\<close>

theorem PATCH_blank_role_status_500:
  "PATCH (Some example_admin) (Some (JObj [(''userId'', JStr ''u1''), (''role'', JStr [])])) d
     = (\<lparr>status = 500,
         body = JObj [(''success'', JBool False), (''error'', JStr ''Failed to update user'')]\<rparr>, d)
   \<and> PATCH (Some example_admin) (Some (JObj [(''userId'', JStr ''u1'')])) d
     = (\<lparr>status = 500,
         body = JObj [(''success'', JBool False), (''error'', JStr ''Failed to update user'')]\<rparr>, d)
   \<and> PATCH (Some example_admin) (Some (JObj [(''userId'', JStr ''u1''), (''role'', JStr ''owner'')])) d
     = (\<lparr>status = 400,
         body = JObj [(''success'', JBool False), (''error'', JStr invalid_role_message)]\<rparr>, d)"
  by (simp add: PATCH_def PATCH_try_def validateRequired_def example_admin_def response_defs
      trim_def trimStart_def trimEnd_def isWhiteSpace_def)

section \<open>Deleting one's own account\<close>

text \<open>
  Claim C5. For an administrator, a DELETE whose \<open>id\<close> parameter is the caller's own
  identifier is answered with 400 and \<open>Cannot delete your own account\<close>, and the store is
  left as it is. The test comes after the presence test: an absent or empty \<open>id\<close> is
  answered with 400 and \<open>User ID is required\<close>, so the message of the self-deletion test
  is the one returned for every identifier that passes the presence test, that is, every
  identifier that is not the empty string. In each of these cases no delete is issued.
\<close>

theorem DELETE_self_rejected:
  assumes "su_role (user s) = ''admin''"
  shows "(searchParams_get q ''id'' = Some (su_id (user s)) \<and> su_id (user s) \<noteq> [] \<longrightarrow>
            DELETE (Some s) q d
              = (\<lparr>status = 400,
                  body = JObj [(''success'', JBool False),
                               (''error'', JStr ''Cannot delete your own account'')]\<rparr>, d))
       \<and> (searchParams_get q ''id'' = None \<or> searchParams_get q ''id'' = Some [] \<longrightarrow>
            DELETE (Some s) q d
              = (\<lparr>status = 400,
                  body = JObj [(''success'', JBool False), (''error'', JStr ''User ID is required'')]\<rparr>,
                 d))
       \<and> (searchParams_get q ''id'' = Some (su_id (user s)) \<longrightarrow>
            status (fst (DELETE (Some s) q d)) = 400 \<and> snd (DELETE (Some s) q d) = d)"
  using assms by (auto simp: DELETE_def DELETE_try_def response_defs)

theorem DELETE_self_rejected_witness:
  "su_role (user example_admin) = ''admin''
   \<and> searchParams_get [(''id'', ''a1'')] ''id'' = Some (su_id (user example_admin))
   \<and> su_id (user example_admin) \<noteq> []
   \<and> DELETE (Some example_admin) [(''id'', ''a1'')] example_db
        = (\<lparr>status = 400,
            body = JObj [(''success'', JBool False),
                         (''error'', JStr ''Cannot delete your own account'')]\<rparr>, example_db)
   \<and> searchParams_get [] ''id'' = None
   \<and> DELETE (Some example_admin) [] example_db
        = (\<lparr>status = 400,
            body = JObj [(''success'', JBool False), (''error'', JStr ''User ID is required'')]\<rparr>,
           example_db)"
  using DELETE_self_rejected [of example_admin "[(''id'', ''a1'')]" example_db]
    DELETE_self_rejected [of example_admin "[]" example_db]
  by (simp add: example_admin_def searchParams_get_def)

section \<open>Failures of the store\<close>

lemma trim_Nil: "trim [] = []"
  by (simp add: trim_def trimStart_def trimEnd_def)

lemma validateRequired_two_strings:
  assumes "trim a \<noteq> []" and "trim r \<noteq> []"
  shows "validateRequired [(''userId'', JStr a), (''role'', JStr r)] = Inr ()"
proof -
  from assms have "a \<noteq> []" and "r \<noteq> []"
    using trim_Nil by auto
  with assms show ?thesis
    by (simp add: validateRequired_def)
qed

lemma PATCH_try_reaches_store:
  assumes "getProp b ''userId'' = JStr uid" and "trim uid \<noteq> []"
    and "getProp b ''role'' = JStr r" and "r = ''user'' \<or> r = ''admin''"
  shows "PATCH_try (Some b) d =
           (case prisma_user_update d (JStr uid) (JStr r)
                   [Scalar ''id'', Scalar ''name'', Scalar ''email'', Scalar ''role''] of
              Inl e \<Rightarrow> Inl e
            | Inr (updated, d') \<Rightarrow>
                Inr (successResponse
                       (JObj [(''message'', JStr ''User role updated successfully''),
                              (''user'', updated)])
                       None, d'))"
proof -
  from assms(1) have nb: "b \<noteq> JNull" "b \<noteq> JUndefined"
    by auto
  from assms(4) have "trim r \<noteq> []"
    by (auto simp: trim_user)
  with assms(2) have v: "validateRequired [(''userId'', JStr uid), (''role'', JStr r)] = Inr ()"
    by (rule validateRequired_two_strings)
  from assms(4) have m: "JStr r \<in> set [JStr ''user'', JStr ''admin'']"
    by auto
  show ?thesis
    unfolding PATCH_try_def using nb v m by (simp add: assms(1,3))
qed

lemma DELETE_try_reaches_store:
  assumes "searchParams_get q ''id'' = Some qid" and "qid \<noteq> []" and "qid \<noteq> su_id (user s)"
  shows "DELETE_try s q d =
           (case prisma_user_delete d (JStr qid) of
              Inl e \<Rightarrow> Inl e
            | Inr d' \<Rightarrow>
                Inr (successResponse (JObj [(''message'', JStr ''User deleted successfully'')]) None,
                     d'))"
  using assms by (simp add: DELETE_try_def)

lemma prisma_user_update_fault:
  "fault d = Some e \<Longrightarrow> prisma_user_update d i r sel = Inl e"
  by (simp add: prisma_user_update_def)

lemma prisma_user_delete_fault:
  "fault d = Some e \<Longrightarrow> prisma_user_delete d i = Inl e"
  by (simp add: prisma_user_delete_def)

lemma find_absent:
  "x \<notin> u_id ` set (users d) \<Longrightarrow> find (\<lambda>u. u_id u = x) (users d) = None"
  by (auto simp: find_None_iff)

lemma prisma_user_update_absent:
  "fault d = None \<Longrightarrow> x \<notin> u_id ` set (users d) \<Longrightarrow>
     prisma_user_update d (JStr x) (JStr r) sel = Inl RecordNotFound"
  by (simp add: prisma_user_update_def find_absent)

lemma prisma_user_delete_absent:
  "fault d = None \<Longrightarrow> x \<notin> u_id ` set (users d) \<Longrightarrow>
     prisma_user_delete d (JStr x) = Inl RecordNotFound"
  by (simp add: prisma_user_delete_def find_absent)

lemma PATCH_catch:
  "su_role (user s) = ''admin'' \<Longrightarrow> PATCH_try rq d = Inl e \<Longrightarrow>
     PATCH (Some s) rq d =
       (if err_code e = Some ''P2025''
        then \<lparr>status = 404,
              body = JObj [(''success'', JBool False), (''error'', JStr ''User not found'')]\<rparr>
        else \<lparr>status = 500,
              body = JObj [(''success'', JBool False), (''error'', JStr ''Failed to update user'')]\<rparr>,
        d)"
  by (simp add: PATCH_def response_defs)

lemma DELETE_catch:
  "su_role (user s) = ''admin'' \<Longrightarrow> DELETE_try s q d = Inl e \<Longrightarrow>
     DELETE (Some s) q d =
       (if err_code e = Some ''P2025''
        then \<lparr>status = 404,
              body = JObj [(''success'', JBool False), (''error'', JStr ''User not found'')]\<rparr>
        else \<lparr>status = 500,
              body = JObj [(''success'', JBool False), (''error'', JStr ''Failed to delete user'')]\<rparr>,
        d)"
  by (simp add: DELETE_def response_defs)

text \<open>
  Claim C8. Take a PATCH and a DELETE of an administrator that reach the store (the body
  has a non-blank \<open>userId\<close> and a valid role; the \<open>id\<close> parameter is present and not the
  caller's). When the identifier names no record, the store's "record not found" signal is
  answered with 404 and \<open>User not found\<close>. When the store fails with an error \<open>e\<close>, the
  answer is that same 404 if the code of \<open>e\<close> is \<open>P2025\<close>, and otherwise the status 500 with
  a fixed message (\<open>Failed to update user\<close>, \<open>Failed to delete user\<close>) in which nothing of
  \<open>e\<close> appears. The store is unchanged in all these cases.
\<close>

theorem store_failures_mapped:
  assumes admin: "su_role (user s) = ''admin''"
    and body: "getProp b ''userId'' = JStr uid" "trim uid \<noteq> []"
      "getProp b ''role'' = JStr r" "r = ''user'' \<or> r = ''admin''"
    and query: "searchParams_get q ''id'' = Some qid" "qid \<noteq> []" "qid \<noteq> su_id (user s)"
  shows "(fault d = None \<and> uid \<notin> u_id ` set (users d) \<longrightarrow>
            PATCH (Some s) (Some b) d
              = (\<lparr>status = 404,
                  body = JObj [(''success'', JBool False), (''error'', JStr ''User not found'')]\<rparr>, d))
       \<and> (\<forall>e. fault d = Some e \<longrightarrow>
            PATCH (Some s) (Some b) d
              = (if err_code e = Some ''P2025''
                 then \<lparr>status = 404,
                       body = JObj [(''success'', JBool False), (''error'', JStr ''User not found'')]\<rparr>
                 else \<lparr>status = 500,
                       body = JObj [(''success'', JBool False),
                                    (''error'', JStr ''Failed to update user'')]\<rparr>, d))
       \<and> (fault d = None \<and> qid \<notin> u_id ` set (users d) \<longrightarrow>
            DELETE (Some s) q d
              = (\<lparr>status = 404,
                  body = JObj [(''success'', JBool False), (''error'', JStr ''User not found'')]\<rparr>, d))
       \<and> (\<forall>e. fault d = Some e \<longrightarrow>
            DELETE (Some s) q d
              = (if err_code e = Some ''P2025''
                 then \<lparr>status = 404,
                       body = JObj [(''success'', JBool False), (''error'', JStr ''User not found'')]\<rparr>
                 else \<lparr>status = 500,
                       body = JObj [(''success'', JBool False),
                                    (''error'', JStr ''Failed to delete user'')]\<rparr>, d))"
proof (intro conjI impI allI)
  assume "fault d = None \<and> uid \<notin> u_id ` set (users d)"
  then have "PATCH_try (Some b) d = Inl RecordNotFound"
    by (simp add: PATCH_try_reaches_store [OF body] prisma_user_update_absent)
  from PATCH_catch [OF admin this]
  show "PATCH (Some s) (Some b) d
          = (\<lparr>status = 404,
              body = JObj [(''success'', JBool False), (''error'', JStr ''User not found'')]\<rparr>, d)"
    by (simp add: RecordNotFound_def)
next
  fix e
  assume "fault d = Some e"
  then have "PATCH_try (Some b) d = Inl e"
    by (simp add: PATCH_try_reaches_store [OF body] prisma_user_update_fault)
  from PATCH_catch [OF admin this]
  show "PATCH (Some s) (Some b) d
          = (if err_code e = Some ''P2025''
             then \<lparr>status = 404,
                   body = JObj [(''success'', JBool False), (''error'', JStr ''User not found'')]\<rparr>
             else \<lparr>status = 500,
                   body = JObj [(''success'', JBool False),
                                (''error'', JStr ''Failed to update user'')]\<rparr>, d)" .
next
  assume "fault d = None \<and> qid \<notin> u_id ` set (users d)"
  then have "DELETE_try s q d = Inl RecordNotFound"
    by (simp add: DELETE_try_reaches_store [OF query] prisma_user_delete_absent)
  from DELETE_catch [OF admin this]
  show "DELETE (Some s) q d
          = (\<lparr>status = 404,
              body = JObj [(''success'', JBool False), (''error'', JStr ''User not found'')]\<rparr>, d)"
    by (simp add: RecordNotFound_def)
next
  fix e
  assume "fault d = Some e"
  then have "DELETE_try s q d = Inl e"
    by (simp add: DELETE_try_reaches_store [OF query] prisma_user_delete_fault)
  from DELETE_catch [OF admin this]
  show "DELETE (Some s) q d
          = (if err_code e = Some ''P2025''
             then \<lparr>status = 404,
                   body = JObj [(''success'', JBool False), (''error'', JStr ''User not found'')]\<rparr>
             else \<lparr>status = 500,
                   body = JObj [(''success'', JBool False),
                                (''error'', JStr ''Failed to delete user'')]\<rparr>, d)" .
qed

lemma example_ids: "u_id ` set (users example_db) = {''u1'', ''a1'', ''u2''}"
  by (auto simp: example_db_def)

theorem store_failures_mapped_witness:
  "PATCH (Some example_admin) (Some (JObj [(''userId'', JStr ''zz''), (''role'', JStr ''admin'')])) example_db
     = (\<lparr>status = 404,
         body = JObj [(''success'', JBool False), (''error'', JStr ''User not found'')]\<rparr>, example_db)
   \<and> DELETE (Some example_admin) [(''id'', ''zz'')] example_db
     = (\<lparr>status = 404,
         body = JObj [(''success'', JBool False), (''error'', JStr ''User not found'')]\<rparr>, example_db)
   \<and> PATCH (Some example_admin) (Some (JObj [(''userId'', JStr ''zz''), (''role'', JStr ''admin'')]))
        example_faulty_db
     = (\<lparr>status = 500,
         body = JObj [(''success'', JBool False), (''error'', JStr ''Failed to update user'')]\<rparr>,
        example_faulty_db)
   \<and> DELETE (Some example_admin) [(''id'', ''zz'')] example_faulty_db
     = (\<lparr>status = 500,
         body = JObj [(''success'', JBool False), (''error'', JStr ''Failed to delete user'')]\<rparr>,
        example_faulty_db)"
proof -
  have h: "su_role (user example_admin) = ''admin''"
    "getProp (JObj [(''userId'', JStr ''zz''), (''role'', JStr ''admin'')]) ''userId'' = JStr ''zz''"
    "trim ''zz'' \<noteq> []"
    "getProp (JObj [(''userId'', JStr ''zz''), (''role'', JStr ''admin'')]) ''role'' = JStr ''admin''"
    "''admin'' = ''user'' \<or> ''admin'' = ''admin''"
    "searchParams_get [(''id'', ''zz'')] ''id'' = Some ''zz''"
    "''zz'' \<noteq> []"
    "''zz'' \<noteq> su_id (user example_admin)"
    by (simp_all add: example_admin_def searchParams_get_def trim_def trimStart_def trimEnd_def
        isWhiteSpace_def)
  have f: "fault example_db = None" "''zz'' \<notin> u_id ` set (users example_db)"
    "fault example_faulty_db = Some (JsError ''Can not reach database server'' (Some ''P1001''))"
    by (simp_all add: example_ids) (simp_all add: example_db_def example_faulty_db_def)
  from store_failures_mapped [OF h, of example_db] store_failures_mapped [OF h, of example_faulty_db] f
  show ?thesis
    by simp
qed

section \<open>The successful listing\<close>

lemma GET_success_cases:
  assumes "status (GET session q d) = 200"
  shows "\<exists>s found n. session = Some s \<and> su_role (user s) = ''admin''
           \<and> prisma_user_findMany d (GET_where (query_search q)) (query_skip q) (query_limit q)
                GET_select = Inr found
           \<and> prisma_user_count d (GET_where (query_search q)) = Inr n
           \<and> GET session q d =
               successResponse
                 (JObj [(''users'', JArr found),
                        (''pagination'',
                         JObj [(''page'', JNum (query_page q)),
                               (''limit'', JNum (query_limit q)),
                               (''total'', JNum (Fin (of_nat n))),
                               (''totalPages'',
                                JNum (Math_ceil (num_div (Fin (of_nat n)) (query_limit q))))])])
                 None"
proof (cases session)
  case None
  with assms show ?thesis by (simp add: GET_def response_defs)
next
  case (Some s)
  show ?thesis
  proof (cases "su_role (user s) = ''admin''")
    case False
    with Some assms show ?thesis by (simp add: GET_def response_defs)
  next
    case True
    let ?wh = "GET_where (query_search q)"
    show ?thesis
    proof (cases "prisma_user_findMany d ?wh (query_skip q) (query_limit q) GET_select")
      case (Inl e)
      with Some True assms show ?thesis by (simp add: GET_def Let_def response_defs)
    next
      case found: (Inr found)
      show ?thesis
      proof (cases "prisma_user_count d ?wh")
        case (Inl e)
        with Some True found assms show ?thesis by (simp add: GET_def Let_def response_defs)
      next
        case (Inr n)
        with Some True found show ?thesis by (simp add: GET_def Let_def)
      qed
    qed
  qed
qed

lemma pagination_of_success:
  "response_pagination (successResponse (JObj [(''users'', us), (''pagination'', JObj
       [(''page'', a), (''limit'', b), (''total'', c), (''totalPages'', e)])]) None) key
     = getProp (JObj [(''page'', a), (''limit'', b), (''total'', c), (''totalPages'', e)]) key"
  by (simp add: response_pagination_def response_defs)

lemma users_of_success:
  "response_users (successResponse (JObj [(''users'', JArr found), (''pagination'', pg)]) None) = found"
  by (simp add: response_users_def response_defs)

section \<open>The listing never holds a password\<close>

lemma project_GET_select:
  "project GET_select u =
     JObj [(''id'', JStr (u_id u)), (''name'', JStr (u_name u)), (''email'', JStr (u_email u)),
           (''role'', JStr (u_role u)), (''createdAt'', JDate (u_createdAt u)),
           (''updatedAt'', JDate (u_updatedAt u)),
           (''_count'', JObj [(''sessions'', JNum (Fin (of_nat (length (u_sessions u)))))])]"
  by (simp add: project_def GET_select_def scalar_field_def string_field_def)

lemma findMany_projects:
  assumes "prisma_user_findMany d wh sk tk sel = Inr found"
  shows "\<exists>rows. found = map (project sel) rows"
  using assms
  by (auto simp: prisma_user_findMany_def Let_def split: option.splits if_splits)

lemma GET_success_users:
  assumes "status (GET session q d) = 200"
  shows "\<exists>rows. response_users (GET session q d) = map (project GET_select) rows"
proof -
  from GET_success_cases [OF assms] obtain s found n
    where f: "prisma_user_findMany d (GET_where (query_search q)) (query_skip q) (query_limit q)
                GET_select = Inr found"
      and r: "GET session q d =
               successResponse
                 (JObj [(''users'', JArr found),
                        (''pagination'',
                         JObj [(''page'', JNum (query_page q)),
                               (''limit'', JNum (query_limit q)),
                               (''total'', JNum (Fin (of_nat n))),
                               (''totalPages'',
                                JNum (Math_ceil (num_div (Fin (of_nat n)) (query_limit q))))])])
                 None"
    by blast
  from findMany_projects [OF f] obtain rows where "found = map (project GET_select) rows" ..
  moreover from r have "response_users (GET session q d) = found"
    by (simp add: users_of_success)
  ultimately show ?thesis
    by blast
qed

lemma insort_key_map:
  "insort_key k (g x) (map g xs) = map g (insort_key (\<lambda>y. k (g y)) x xs)"
  by (induction xs) auto

lemma sort_key_map:
  "sort_key k (map g xs) = map g (sort_key (\<lambda>y. k (g y)) xs)"
  by (induction xs) (simp_all add: insort_key_map)

lemma where_matches_password:
  "where_matches (GET_where srch) (u\<lparr>u_password := pw\<rparr>) = where_matches (GET_where srch) u"
  by (simp add: GET_where_def string_field_def)

lemma project_password:
  "project GET_select (u\<lparr>u_password := pw\<rparr>) = project GET_select u"
  by (simp add: project_GET_select)

lemma findMany_password:
  "prisma_user_findMany (d\<lparr>users := map (\<lambda>u. u\<lparr>u_password := pw u\<rparr>) (users d)\<rparr>)
       (GET_where srch) sk tk GET_select
     = prisma_user_findMany d (GET_where srch) sk tk GET_select"
  by (simp add: prisma_user_findMany_def filter_map comp_def where_matches_password sort_key_map
      take_map drop_map rev_map project_password Let_def
      split: option.splits)

lemma count_password:
  "prisma_user_count (d\<lparr>users := map (\<lambda>u. u\<lparr>u_password := pw u\<rparr>) (users d)\<rparr>) (GET_where srch)
     = prisma_user_count d (GET_where srch)"
  by (simp add: prisma_user_count_def filter_map comp_def where_matches_password
      split: option.splits)

text \<open>
  Claim C9. Every record in the users list of a successful GET /api/admin/users response is
  an object with exactly the fields \<open>id\<close>, \<open>name\<close>, \<open>email\<close>, \<open>role\<close>, \<open>createdAt\<close>,
  \<open>updatedAt\<close> and \<open>_count\<close>, the last holding the number of sessions; there is no
  \<open>password\<close> field. More than that, no response of the handler depends on the stored
  passwords: replacing every password in the store leaves the response as it is.
\<close>

theorem GET_never_returns_password:
  "(status (GET session q d) = 200 \<longrightarrow>
      (\<forall>u \<in> set (response_users (GET session q d)).
         \<exists>fs n. u = JObj fs
           \<and> map fst fs = [''id'', ''name'', ''email'', ''role'', ''createdAt'', ''updatedAt'', ''_count'']
           \<and> ''password'' \<notin> set (map fst fs)
           \<and> getProp u ''_count'' = JObj [(''sessions'', JNum (Fin (of_nat n)))]))
   \<and> GET session q (d\<lparr>users := map (\<lambda>u. u\<lparr>u_password := pw u\<rparr>) (users d)\<rparr>) = GET session q d"
proof (intro conjI impI ballI)
  fix u
  assume "status (GET session q d) = 200" and u: "u \<in> set (response_users (GET session q d))"
  from GET_success_users [OF this(1)] obtain rows
    where "response_users (GET session q d) = map (project GET_select) rows" ..
  with u obtain r where "u = project GET_select r"
    by auto
  then show "\<exists>fs n. u = JObj fs
           \<and> map fst fs = [''id'', ''name'', ''email'', ''role'', ''createdAt'', ''updatedAt'', ''_count'']
           \<and> ''password'' \<notin> set (map fst fs)
           \<and> getProp u ''_count'' = JObj [(''sessions'', JNum (Fin (of_nat n)))]"
    by (simp add: project_GET_select)
next
  show "GET session q (d\<lparr>users := map (\<lambda>u. u\<lparr>u_password := pw u\<rparr>) (users d)\<rparr>) = GET session q d"
    unfolding GET_def Let_def findMany_password count_password by (rule refl)
qed

lemma example_listing:
  "response_users (GET (Some example_admin) [(''limit'', ''2''), (''page'', ''2'')] example_db)
     = [JObj [(''id'', JStr ''u1''), (''name'', JStr ''Bob''), (''email'', JStr ''bob@x.com''),
              (''role'', JStr ''user''), (''createdAt'', JDate 10), (''updatedAt'', JDate 10),
              (''_count'', JObj [(''sessions'', JNum (Fin 0))])]]"
  by code_simp

lemma example_listing_page2_status:
  "status (GET (Some example_admin) [(''limit'', ''2''), (''page'', ''2'')] example_db) = 200"
  by code_simp

theorem GET_never_returns_password_witness:
  "status (GET (Some example_admin) [(''limit'', ''2''), (''page'', ''2'')] example_db) = 200
   \<and> response_users (GET (Some example_admin) [(''limit'', ''2''), (''page'', ''2'')] example_db)
     = [JObj [(''id'', JStr ''u1''), (''name'', JStr ''Bob''), (''email'', JStr ''bob@x.com''),
              (''role'', JStr ''user''), (''createdAt'', JDate 10), (''updatedAt'', JDate 10),
              (''_count'', JObj [(''sessions'', JNum (Fin 0))])]]
   \<and> (\<exists>fs. JObj [(''id'', JStr ''u1''), (''name'', JStr ''Bob''), (''email'', JStr ''bob@x.com''),
              (''role'', JStr ''user''), (''createdAt'', JDate 10), (''updatedAt'', JDate 10),
              (''_count'', JObj [(''sessions'', JNum (Fin 0))])] = JObj fs
         \<and> ''password'' \<notin> set (map fst fs))"
  using GET_never_returns_password [of "Some example_admin" "[(''limit'', ''2''), (''page'', ''2'')]" example_db]
  by (simp add: example_listing example_listing_page2_status)

section \<open>Pagination\<close>

lemma int_arg_of_nat: "int_arg (Fin (of_nat n)) = Some (int n)"
  by (simp add: int_arg_def)

lemma sum_page_lengths:
  "(\<Sum>p = 1..n. length (take l (drop ((p - 1) * l) xs))) = min (n * l) (length xs)"
proof (induction n)
  case 0
  show ?case by simp
next
  case (Suc n)
  have "(\<Sum>p = 1..Suc n. length (take l (drop ((p - 1) * l) xs)))
          = (\<Sum>p = 1..n. length (take l (drop ((p - 1) * l) xs)))
            + length (take l (drop (n * l) xs))"
    by simp
  also have "\<dots> = min (n * l) (length xs) + length (take l (drop (n * l) xs))"
    by (simp only: Suc.IH)
  also have "\<dots> = min (n * l) (length xs) + min (length xs - n * l) l"
    by simp
  also have "\<dots> = min (n * l + l) (length xs)"
    by linarith
  finally show ?case
    by (simp add: add.commute)
qed

lemma ceil_pages_cover:
  assumes "0 < l"
  shows "t \<le> nat \<lceil>(of_nat t :: rat) / of_nat l\<rceil> * l"
proof -
  let ?c = "\<lceil>(of_nat t :: rat) / of_nat l\<rceil>"
  have "(0::rat) \<le> of_nat t / of_nat l"
    by simp
  from ceiling_mono [OF this] have c0: "0 \<le> ?c"
    by simp
  have "(of_nat t :: rat) / of_nat l \<le> of_int ?c"
    by (rule le_of_int_ceiling)
  moreover have "(0::rat) < of_nat l"
    using assms by simp
  ultimately have "(of_nat t :: rat) \<le> of_int ?c * of_nat l"
    by (simp only: pos_divide_le_eq)
  also have "\<dots> = of_int (?c * int l)"
    by simp
  finally have "int t \<le> ?c * int l"
    by (metis of_int_le_iff of_int_of_nat_eq)
  with c0 have "int t \<le> int (nat ?c * l)"
    by simp
  then show ?thesis
    by linarith
qed

lemma findMany_length:
  assumes "prisma_user_findMany d wh sk (Fin (of_nat l)) sel = Inr found"
  shows "length found \<le> l"
  using assms
  by (auto simp: prisma_user_findMany_def int_arg_of_nat Let_def split: option.splits if_splits)

lemma count_Inr:
  assumes "prisma_user_count d (GET_where srch) = Inr n"
  shows "n = matching_count d srch"
  using assms by (auto simp: prisma_user_count_def matching_count_def split: option.splits)

lemma query_skip_of_nat:
  assumes "query_page q = Fin (of_nat p)" and "1 \<le> p" and "query_limit q = Fin (of_nat l)"
  shows "query_skip q = Fin (of_nat ((p - 1) * l))"
proof -
  from assms(2) have "(of_nat (p - 1) :: rat) = of_nat p - 1"
    by (simp add: of_nat_diff)
  with assms(1,3) show ?thesis
    by (simp add: query_skip_def)
qed

lemma findMany_page:
  assumes "fault d = None"
  shows "prisma_user_findMany d wh (Fin (of_nat sk)) (Fin (of_nat l)) sel
           = Inr (map (project sel)
                   (take l (drop sk (sort_key (\<lambda>u. - u_createdAt u)
                      (filter (where_matches wh) (users d))))))"
  using assms by (simp add: prisma_user_findMany_def int_arg_of_nat)

lemma GET_page:
  assumes "su_role (user s) = ''admin''" and "fault d = None"
    and "query_page q = Fin (of_nat p)" and "1 \<le> p" and "query_limit q = Fin (of_nat l)"
  shows "status (GET (Some s) q d) = 200
         \<and> response_users (GET (Some s) q d)
             = map (project GET_select)
                 (take l (drop ((p - 1) * l) (sort_key (\<lambda>u. - u_createdAt u)
                    (filter (where_matches (GET_where (query_search q))) (users d)))))"
proof -
  have sk: "query_skip q = Fin (of_nat ((p - 1) * l))"
    using assms(3-5) by (rule query_skip_of_nat)
  have c: "prisma_user_count d (GET_where (query_search q)) = Inr (matching_count d (query_search q))"
    using assms(2) by (simp add: prisma_user_count_def matching_count_def)
  have f: "prisma_user_findMany d (GET_where (query_search q)) (query_skip q) (query_limit q)
             GET_select
           = Inr (map (project GET_select)
                   (take l (drop ((p - 1) * l) (sort_key (\<lambda>u. - u_createdAt u)
                      (filter (where_matches (GET_where (query_search q))) (users d))))))"
    unfolding sk assms(5) using assms(2) by (rule findMany_page)
  have "GET (Some s) q d =
          successResponse
            (JObj [(''users'',
                    JArr (map (project GET_select)
                      (take l (drop ((p - 1) * l) (sort_key (\<lambda>u. - u_createdAt u)
                         (filter (where_matches (GET_where (query_search q))) (users d))))))),
                   (''pagination'',
                    JObj [(''page'', JNum (query_page q)),
                          (''limit'', JNum (query_limit q)),
                          (''total'', JNum (Fin (of_nat (matching_count d (query_search q))))),
                          (''totalPages'',
                           JNum (Math_ceil (num_div
                             (Fin (of_nat (matching_count d (query_search q))))
                             (query_limit q))))])])
            None"
    unfolding GET_def Let_def f c using assms(1) by simp
  then show ?thesis
    by (simp add: users_of_success) (simp add: response_defs)
qed

text \<open>
  Claim C7, amended. Let the limit be an integer that is at least 1. Every successful
  response of GET /api/admin/users has \<open>total\<close> equal to the number of records matching
  the search, \<open>totalPages\<close> equal to the ceiling of \<open>total / limit\<close>, and a users list of
  length at most \<open>limit\<close>. For an administrator and a store that does not fail, the
  requests for the pages 1 to \<open>totalPages\<close> with one search string and one limit all
  succeed, and the lengths of their users lists add up to \<open>total\<close>.
\<close>

theorem GET_pagination_invariant:
  assumes "1 \<le> l"
  shows "(status (GET session q d) = 200 \<and> query_limit q = Fin (of_nat l) \<longrightarrow>
            response_pagination (GET session q d) ''total''
              = JNum (Fin (of_nat (matching_count d (query_search q))))
            \<and> response_pagination (GET session q d) ''totalPages''
              = JNum (Fin (of_int (ceil_div (matching_count d (query_search q)) l)))
            \<and> length (response_users (GET session q d)) \<le> l)
       \<and> (su_role (user s) = ''admin'' \<and> fault d = None
           \<and> (\<forall>p \<in> {1..nat (ceil_div (matching_count d srch) l)}.
                 query_page (qs p) = Fin (of_nat p) \<and> query_limit (qs p) = Fin (of_nat l)
                 \<and> query_search (qs p) = srch) \<longrightarrow>
            (\<forall>p \<in> {1..nat (ceil_div (matching_count d srch) l)}. status (GET (Some s) (qs p) d) = 200)
            \<and> (\<Sum>p = 1..nat (ceil_div (matching_count d srch) l).
                  length (response_users (GET (Some s) (qs p) d)))
                = matching_count d srch)"
proof (intro conjI impI)
  assume a: "status (GET session q d) = 200 \<and> query_limit q = Fin (of_nat l)"
  from GET_success_cases [of session q d] a obtain s' found n
    where f: "prisma_user_findMany d (GET_where (query_search q)) (query_skip q) (Fin (of_nat l))
                GET_select = Inr found"
      and c: "prisma_user_count d (GET_where (query_search q)) = Inr n"
      and r: "GET session q d =
               successResponse
                 (JObj [(''users'', JArr found),
                        (''pagination'',
                         JObj [(''page'', JNum (query_page q)),
                               (''limit'', JNum (Fin (of_nat l))),
                               (''total'', JNum (Fin (of_nat n))),
                               (''totalPages'',
                                JNum (Math_ceil (num_div (Fin (of_nat n)) (Fin (of_nat l)))))])])
                 None"
    by auto
  from c have n: "n = matching_count d (query_search q)"
    by (rule count_Inr)
  show "response_pagination (GET session q d) ''total''
          = JNum (Fin (of_nat (matching_count d (query_search q))))"
    unfolding r pagination_of_success by (simp add: n)
  from assms have "0 < l" by simp
  then show "response_pagination (GET session q d) ''totalPages''
          = JNum (Fin (of_int (ceil_div (matching_count d (query_search q)) l)))"
    unfolding r pagination_of_success by (simp add: n ceil_div_def)
  show "length (response_users (GET session q d)) \<le> l"
    unfolding r users_of_success using f by (rule findMany_length)
next
  let ?n = "nat (ceil_div (matching_count d srch) l)"
  let ?rows = "sort_key (\<lambda>u. - u_createdAt u) (filter (where_matches (GET_where srch)) (users d))"
  assume a: "su_role (user s) = ''admin'' \<and> fault d = None
           \<and> (\<forall>p \<in> {1..?n}.
                 query_page (qs p) = Fin (of_nat p) \<and> query_limit (qs p) = Fin (of_nat l)
                 \<and> query_search (qs p) = srch)"
  have page: "status (GET (Some s) (qs p) d) = 200
      \<and> response_users (GET (Some s) (qs p) d)
           = map (project GET_select) (take l (drop ((p - 1) * l) ?rows))"
    if "p \<in> {1..?n}" for p
  proof -
    from a that have "query_page (qs p) = Fin (of_nat p)" "query_limit (qs p) = Fin (of_nat l)"
      "query_search (qs p) = srch" "1 \<le> p"
      by auto
    with a GET_page [of s d "qs p" p l] show ?thesis
      by simp
  qed
  then show "\<forall>p \<in> {1..?n}. status (GET (Some s) (qs p) d) = 200"
    by blast
  have "(\<Sum>p = 1..?n. length (response_users (GET (Some s) (qs p) d)))
          = (\<Sum>p = 1..?n. length (take l (drop ((p - 1) * l) ?rows)))"
    by (rule sum.cong) (simp_all add: page)
  also have "\<dots> = min (?n * l) (length ?rows)"
    by (rule sum_page_lengths)
  also have "length ?rows = matching_count d srch"
    by (simp add: matching_count_def)
  also have "min (?n * l) (matching_count d srch) = matching_count d srch"
  proof -
    from assms have "0 < l" by simp
    from ceil_pages_cover [OF this, of "matching_count d srch"]
    show ?thesis by (simp add: ceil_div_def)
  qed
  finally show "(\<Sum>p = 1..?n. length (response_users (GET (Some s) (qs p) d)))
                  = matching_count d srch" .
qed

text \<open>
  Claim C7 fails as stated: the handler accepts \<open>limit=0\<close>. The response is successful,
  the store holds three records, every page is empty, and \<open>total / limit\<close> is infinite:
  \<open>totalPages\<close> is no number of pages and the lengths of the pages do not add up to
  \<open>total\<close>.
\<close>

theorem limit_zero_counterexample:
  "GET (Some example_admin) [(''page'', ''1''), (''limit'', ''0'')] example_db
     = \<lparr>status = 200,
        body = JObj [(''success'', JBool True),
                     (''data'',
                      JObj [(''users'', JArr []),
                            (''pagination'',
                             JObj [(''page'', JNum (Fin 1)), (''limit'', JNum (Fin 0)),
                                   (''total'', JNum (Fin 3)),
                                   (''totalPages'', JNum PosInf)])])]\<rparr>"
  by code_simp

lemma example_page_count: "ceil_div 3 2 = 2"
  by code_simp

lemma example_matching_count: "matching_count example_db [] = 3"
  by code_simp

lemma example_pages_queries:
  "\<forall>p \<in> {1..2}. query_page (example_pages p) = Fin (of_nat p)
      \<and> query_limit (example_pages p) = Fin (of_nat 2) \<and> query_search (example_pages p) = []"
proof
  fix p :: nat
  assume "p \<in> {1..2}"
  then have "p = 1 \<or> p = 2" by auto
  then show "query_page (example_pages p) = Fin (of_nat p)
      \<and> query_limit (example_pages p) = Fin (of_nat 2) \<and> query_search (example_pages p) = []"
    by (auto simp: example_pages_def query_page_def query_limit_def query_search_def
        searchParams_get_def or_else_def parse_defs)
qed

lemma example_page2_status: "status (GET (Some example_admin) (example_pages 2) example_db) = 200"
  by code_simp

theorem GET_pagination_invariant_witness:
  "(1::nat) \<le> 2
   \<and> status (GET (Some example_admin) (example_pages 2) example_db) = 200
   \<and> query_limit (example_pages 2) = Fin (of_nat 2)
   \<and> response_pagination (GET (Some example_admin) (example_pages 2) example_db) ''total''
       = JNum (Fin 3)
   \<and> response_pagination (GET (Some example_admin) (example_pages 2) example_db) ''totalPages''
       = JNum (Fin 2)
   \<and> length (response_users (GET (Some example_admin) (example_pages 2) example_db)) \<le> 2
   \<and> su_role (user example_admin) = ''admin'' \<and> fault example_db = None
   \<and> length (response_users (GET (Some example_admin) (example_pages 1) example_db))
      + length (response_users (GET (Some example_admin) (example_pages 2) example_db)) = 3"
proof -
  have l: "(1::nat) \<le> 2"
    by simp
  have a: "su_role (user example_admin) = ''admin''" "fault example_db = None"
    by (simp_all add: example_admin_def example_db_def)
  have q: "query_limit (example_pages 2) = Fin (of_nat 2)"
    using example_pages_queries by simp
  have i: "{Suc 0..2} = {Suc 0, 2}"
    by auto
  from GET_pagination_invariant [OF l, where session = "Some example_admin"
      and q = "example_pages 2" and d = example_db and s = example_admin and srch = "[]"
      and qs = example_pages]
    example_pages_queries example_page2_status q a
  show ?thesis
    by (simp add: example_page_count example_matching_count i)
qed

end
